theory Spec2Isabelle
  imports Complex_Main
begin

section \<open>The agent of Agents.py\<close>

text \<open>
  A shallow embedding of \<^verbatim>\<open>ShipNet\<close> and \<^verbatim>\<open>Ship\<close>. The entries of tensors (network
  outputs, rewards, targets, losses) and the discount factor are values of the type
  \<open>scalar\<close>: a real number, an infinity or NaN, with the IEEE rules for the special
  values; rounding and overflow of finite values are outside the model. The exploration
  rates and the learning rate are real numbers. Python
  integers are \<open>int\<close>. Every method takes the agent and returns the agent it leaves
  behind; a method that can raise returns its outcome as a sum, \<open>Inl\<close> the exception.
  The numeric library (torch, numpy, random) is not part of the repository: what the
  agent needs from it is a record of operations passed to every function, and the random
  draws are explicit arguments.
\<close>

subsection \<open>Exceptions and the numeric library\<close>

datatype error =
  ValueError | ZeroDivisionError | IndexError | TypeError | FileNotFoundError | RuntimeError

text \<open>
  A floating-point value: finite, plus or minus infinity, or NaN. The arithmetic is
  the IEEE one on the special values: NaN absorbs, \<open>inf - inf\<close> and \<open>0 * inf\<close> are NaN,
  and every comparison with NaN is false.
\<close>

datatype scalar = Fin real | PInf | NInf | NaN

definition signed_inf :: "real \<Rightarrow> scalar" where
  "signed_inf a = (if a = 0 then NaN else if 0 < a then PInf else NInf)"

definition finite_scalar :: "scalar \<Rightarrow> bool" where
  "finite_scalar x = (case x of Fin a \<Rightarrow> True | PInf \<Rightarrow> False | NInf \<Rightarrow> False | NaN \<Rightarrow> False)"

instantiation scalar :: "{zero, one, plus, uminus, minus, times, abs, ord}"
begin

definition zero_scalar :: scalar where
  "zero_scalar = Fin 0"

definition one_scalar :: scalar where
  "one_scalar = Fin 1"

definition plus_scalar :: "scalar \<Rightarrow> scalar \<Rightarrow> scalar" where
  "plus_scalar x y =
     (case x of
        NaN \<Rightarrow> NaN
      | PInf \<Rightarrow> (case y of Fin b \<Rightarrow> PInf | PInf \<Rightarrow> PInf | NInf \<Rightarrow> NaN | NaN \<Rightarrow> NaN)
      | NInf \<Rightarrow> (case y of Fin b \<Rightarrow> NInf | PInf \<Rightarrow> NaN | NInf \<Rightarrow> NInf | NaN \<Rightarrow> NaN)
      | Fin a \<Rightarrow> (case y of Fin b \<Rightarrow> Fin (a + b) | PInf \<Rightarrow> PInf | NInf \<Rightarrow> NInf | NaN \<Rightarrow> NaN))"

definition uminus_scalar :: "scalar \<Rightarrow> scalar" where
  "uminus_scalar x = (case x of Fin a \<Rightarrow> Fin (- a) | PInf \<Rightarrow> NInf | NInf \<Rightarrow> PInf | NaN \<Rightarrow> NaN)"

definition minus_scalar :: "scalar \<Rightarrow> scalar \<Rightarrow> scalar" where
  "minus_scalar x y = x + (- y)"

definition times_scalar :: "scalar \<Rightarrow> scalar \<Rightarrow> scalar" where
  "times_scalar x y =
     (case x of
        NaN \<Rightarrow> NaN
      | Fin a \<Rightarrow>
          (case y of Fin b \<Rightarrow> Fin (a * b) | PInf \<Rightarrow> signed_inf a | NInf \<Rightarrow> signed_inf (- a)
           | NaN \<Rightarrow> NaN)
      | PInf \<Rightarrow> (case y of Fin b \<Rightarrow> signed_inf b | PInf \<Rightarrow> PInf | NInf \<Rightarrow> NInf | NaN \<Rightarrow> NaN)
      | NInf \<Rightarrow>
          (case y of Fin b \<Rightarrow> signed_inf (- b) | PInf \<Rightarrow> NInf | NInf \<Rightarrow> PInf | NaN \<Rightarrow> NaN))"

definition abs_scalar :: "scalar \<Rightarrow> scalar" where
  "abs_scalar x = (case x of Fin a \<Rightarrow> Fin \<bar>a\<bar> | PInf \<Rightarrow> PInf | NInf \<Rightarrow> PInf | NaN \<Rightarrow> NaN)"

definition less_scalar :: "scalar \<Rightarrow> scalar \<Rightarrow> bool" where
  "less_scalar x y =
     (case x of
        NaN \<Rightarrow> False
      | PInf \<Rightarrow> False
      | NInf \<Rightarrow> (case y of Fin b \<Rightarrow> True | PInf \<Rightarrow> True | NInf \<Rightarrow> False | NaN \<Rightarrow> False)
      | Fin a \<Rightarrow> (case y of Fin b \<Rightarrow> a < b | PInf \<Rightarrow> True | NInf \<Rightarrow> False | NaN \<Rightarrow> False))"

definition less_eq_scalar :: "scalar \<Rightarrow> scalar \<Rightarrow> bool" where
  "less_eq_scalar x y = (x \<noteq> NaN \<and> y \<noteq> NaN \<and> (x < y \<or> x = y))"

instance ..

end

text \<open>
  \<open>init_params c n\<close> are the freshly initialised weights of the \<^verbatim>\<open>nn.Sequential\<close> stack for
  \<open>c\<close> input channels and \<open>n\<close> outputs. \<open>apply_net\<close> runs the stack on one observation: it
  returns the row of action values, or raises when the stack refuses the observation
  (an input of another size than the layers were built for). \<open>loss_grad\<close> is the
  gradient that \<^verbatim>\<open>loss.backward()\<close> leaves on the online weights, \<open>adam_update\<close> is one
  Adam update of one parameter set.
\<close>

record ('p, 's, 'g, 'o) torch =
  cuda_is_available :: bool
  init_params :: "int \<Rightarrow> int \<Rightarrow> 'p"
  apply_net :: "'p \<Rightarrow> 's \<Rightarrow> error + scalar list"
  loss_grad :: "'p \<Rightarrow> 's list \<Rightarrow> int list \<Rightarrow> scalar list \<Rightarrow> 'g"
  adam_init :: 'o
  adam_update :: "real \<Rightarrow> 'o \<Rightarrow> 'p \<Rightarrow> 'g \<Rightarrow> 'p \<times> 'o"

text \<open>Monadic sequencing of outcomes: the first exception wins.\<close>

fun collect :: "(error + 'a) list \<Rightarrow> error + 'a list" where
  "collect [] = Inr []"
| "collect (Inl e # rs) = Inl e"
| "collect (Inr x # rs) = (case collect rs of Inl e \<Rightarrow> Inl e | Inr xs \<Rightarrow> Inr (x # xs))"

text \<open>Python indexing of a sequence: a negative index counts from the end.\<close>

definition py_index :: "'a list \<Rightarrow> int \<Rightarrow> error + 'a" where
  "py_index row i =
     (if i < - int (length row) \<or> int (length row) \<le> i then Inl IndexError
      else if i < 0 then Inr (row ! nat (int (length row) + i))
      else Inr (row ! nat i))"

text \<open>
  \<^verbatim>\<open>torch.argmax\<close> along the last axis: the index of the first maximal entry, where a NaN
  counts as larger than every other value; an empty row has no argmax. \<open>torch_gt a b\<close>
  says that \<open>a\<close> is strictly larger than \<open>b\<close> in that order.
\<close>

definition torch_gt :: "scalar \<Rightarrow> scalar \<Rightarrow> bool" where
  "torch_gt a b = (b \<noteq> NaN \<and> (a = NaN \<or> b < a))"

fun argmax_first :: "scalar list \<Rightarrow> nat" where
  "argmax_first [] = 0"
| "argmax_first [x] = 0"
| "argmax_first (x # y # ys) =
     (let j = argmax_first (y # ys) in if torch_gt ((y # ys) ! j) x then Suc j else 0)"

definition argmax :: "scalar list \<Rightarrow> error + int" where
  "argmax row = (if row = [] then Inl IndexError else Inr (int (argmax_first row)))"

definition argmax_axis1 :: "scalar list list \<Rightarrow> error + int list" where
  "argmax_axis1 rows = collect (map argmax rows)"

text \<open>
  \<^verbatim>\<open>t[np.arange(0, n), idx]\<close>: entry \<open>idx[i]\<close> of row \<open>i\<close>, for the \<open>n\<close> rows of \<open>t\<close>.
  The callers below always pass as many rows and indices as \<open>n\<close>; other shapes are
  an \<open>IndexError\<close> here (the broadcasting of a single index is not modelled).
\<close>

definition gather :: "scalar list list \<Rightarrow> int \<Rightarrow> int list \<Rightarrow> error + scalar list" where
  "gather t n idx =
     (if int (length t) \<noteq> n \<or> length idx \<noteq> length t then Inl IndexError
      else collect (map (\<lambda>(row, i). py_index row i) (zip t idx)))"

text \<open>\<^verbatim>\<open>t.mean()\<close>: the sum over the count; NaN for an empty tensor.\<close>

definition mean :: "scalar list \<Rightarrow> scalar" where
  "mean xs = (if xs = [] then NaN else foldr (+) xs 0 * Fin (1 / real (length xs)))"

text \<open>\<^verbatim>\<open>torch.nn.SmoothL1Loss()\<close> with its defaults: Huber with threshold 1, averaged.\<close>

definition smooth_l1 :: "scalar \<Rightarrow> scalar \<Rightarrow> scalar" where
  "smooth_l1 x y = (let d = \<bar>x - y\<bar> in if d < 1 then Fin (1 / 2) * d * d else d - Fin (1 / 2))"

definition loss_fn :: "scalar list \<Rightarrow> scalar list \<Rightarrow> scalar" where
  "loss_fn input tgt = mean (map (\<lambda>(x, y). smooth_l1 x y) (zip input tgt))"

text \<open>
  \<^verbatim>\<open>np.random.randint(n)\<close>: an integer of \<open>[0, n)\<close>, here picked by the raw draw \<open>r\<close>;
  numpy raises \<^verbatim>\<open>ValueError\<close> when \<open>n \<le> 0\<close>.
\<close>

definition randint :: "nat \<Rightarrow> int \<Rightarrow> error + int" where
  "randint r n = (if n \<le> 0 then Inl ValueError else Inr (int r mod n))"

text \<open>
  \<^verbatim>\<open>random.sample(population, k)\<close>: \<open>k\<close> positions chosen without replacement, each
  taken out of the pool of positions still free; draw number \<open>i\<close> of the generator is
  \<open>rnd i\<close>. It raises \<^verbatim>\<open>ValueError\<close> when \<open>k\<close> is negative or larger than the population.
\<close>

fun sample_pool :: "(nat \<Rightarrow> nat) \<Rightarrow> nat \<Rightarrow> 'a list \<Rightarrow> nat \<Rightarrow> 'a list" where
  "sample_pool rnd i pool 0 = []"
| "sample_pool rnd i [] (Suc k) = []"
| "sample_pool rnd i (p # ps) (Suc k) =
     (let j = rnd i mod length (p # ps)
      in (p # ps) ! j # sample_pool rnd (Suc i) (take j (p # ps) @ drop (Suc j) (p # ps)) k)"

definition sample_indices :: "(nat \<Rightarrow> nat) \<Rightarrow> nat \<Rightarrow> nat \<Rightarrow> nat list" where
  "sample_indices rnd n k = sample_pool rnd 0 [0..<n] k"

definition random_sample :: "(nat \<Rightarrow> nat) \<Rightarrow> 'a list \<Rightarrow> int \<Rightarrow> error + 'a list" where
  "random_sample rnd population k =
     (if k < 0 \<or> int (length population) < k then Inl ValueError
      else Inr (map (\<lambda>i. population ! i) (sample_indices rnd (length population) (nat k))))"

subsection \<open>\<^verbatim>\<open>collections.deque\<close> with a maximal length\<close>

record 'a deque =
  maxlen :: nat
  items :: "'a list"

definition deque_new :: "nat \<Rightarrow> 'a deque" where
  "deque_new n = \<lparr>maxlen = n, items = []\<rparr>"

definition deque_append :: "'a deque \<Rightarrow> 'a \<Rightarrow> 'a deque" where
  "deque_append d x =
     (if maxlen d = 0 then d
      else let xs = items d @ [x]
           in d\<lparr>items := (if maxlen d < length xs then tl xs else xs)\<rparr>)"

subsection \<open>ShipNet\<close>

text \<open>
  One parameter set of the module: the weights, the flag \<^verbatim>\<open>requires_grad\<close> and the
  gradient slot (\<^verbatim>\<open>None\<close> until a backward pass fills it).
\<close>

record ('p, 'g) parameters =
  data :: 'p
  requires_grad :: bool
  grad :: "'g option"

record ('p, 'g) ShipNet =
  online :: "('p, 'g) parameters"
  target :: "('p, 'g) parameters"

text \<open>
  \<^verbatim>\<open>ShipNet.__init__\<close>. After the two shape checks the layers are built, and their
  constructors (\<^verbatim>\<open>nn.Conv2d\<close> on \<open>c\<close> channels, \<^verbatim>\<open>nn.Linear\<close> on \<open>output_dim\<close> outputs)
  raise \<^verbatim>\<open>RuntimeError\<close> on a negative size.
\<close>

definition ShipNet_init ::
  "('p, 's, 'g, 'o) torch \<Rightarrow> int \<times> int \<times> int \<Rightarrow> int \<Rightarrow> error + ('p, 'g) ShipNet" where
  "ShipNet_init L input_dim output_dim =
     (case input_dim of (c, h, w) \<Rightarrow>
        if h \<noteq> 84 then Inl ValueError
        else if w \<noteq> 84 then Inl ValueError
        else if c < 0 \<or> output_dim < 0 then Inl RuntimeError
        else
          let on = \<lparr>data = init_params L c output_dim, requires_grad = True, grad = None\<rparr>
          in Inr \<lparr>online = on, target = on\<lparr>requires_grad := False\<rparr>\<rparr>)"

text \<open>
  \<^verbatim>\<open>forward(input, model)\<close> on a batch of observations: the selected stack is run on
  the batch and what it raises is raised by \<^verbatim>\<open>forward\<close>; with any other \<open>model\<close> the
  Python falls off the end of the method and returns \<^verbatim>\<open>None\<close>.
\<close>

definition run_stack ::
  "('p, 's, 'g, 'o) torch \<Rightarrow> 'p \<Rightarrow> 's list \<Rightarrow> error + scalar list list option" where
  "run_stack L w input =
     (case collect (map (apply_net L w) input) of
        Inl e \<Rightarrow> Inl e
      | Inr rows \<Rightarrow> Inr (Some rows))"

definition forward ::
  "('p, 's, 'g, 'o) torch \<Rightarrow> ('p, 'g) ShipNet \<Rightarrow> 's list \<Rightarrow> string
     \<Rightarrow> error + scalar list list option" where
  "forward L n input model =
     (if model = ''online'' then run_stack L (data (online n)) input
      else if model = ''target'' then run_stack L (data (target n)) input
      else Inr None)"

text \<open>\<^verbatim>\<open>state_dict()\<close> holds the weights only; \<^verbatim>\<open>load_state_dict\<close> copies them in.\<close>

definition state_dict :: "('p, 'g) ShipNet \<Rightarrow> 'p \<times> 'p" where
  "state_dict n = (data (online n), data (target n))"

definition load_state_dict :: "('p, 'g) ShipNet \<Rightarrow> 'p \<times> 'p \<Rightarrow> ('p, 'g) ShipNet" where
  "load_state_dict n sd =
     n\<lparr>online := (online n)\<lparr>data := fst sd\<rparr>, target := (target n)\<lparr>data := snd sd\<rparr>\<rparr>"

subsection \<open>The optimizer\<close>

text \<open>
  \<^verbatim>\<open>torch.optim.Adam(self.net.parameters(), lr)\<close> is registered on both parameter sets
  of the module. \<^verbatim>\<open>zero_grad\<close> clears every gradient slot, \<^verbatim>\<open>step\<close> updates the sets
  whose slot is filled and skips the others.
\<close>

record 'o Adam =
  adam_lr :: real
  adam_state :: 'o

definition Adam_init :: "('p, 's, 'g, 'o) torch \<Rightarrow> real \<Rightarrow> 'o Adam" where
  "Adam_init L rate = \<lparr>adam_lr = rate, adam_state = adam_init L\<rparr>"

definition zero_grad :: "('p, 'g) ShipNet \<Rightarrow> ('p, 'g) ShipNet" where
  "zero_grad n = n\<lparr>online := (online n)\<lparr>grad := None\<rparr>, target := (target n)\<lparr>grad := None\<rparr>\<rparr>"

definition step_one ::
  "('p, 's, 'g, 'o) torch \<Rightarrow> real \<Rightarrow> ('p, 'g) parameters \<Rightarrow> 'o
     \<Rightarrow> ('p, 'g) parameters \<times> 'o" where
  "step_one L rate p st =
     (case grad p of
        None \<Rightarrow> (p, st)
      | Some g \<Rightarrow> (case adam_update L rate st (data p) g of (d, st') \<Rightarrow> (p\<lparr>data := d\<rparr>, st')))"

definition step ::
  "('p, 's, 'g, 'o) torch \<Rightarrow> 'o Adam \<Rightarrow> ('p, 'g) ShipNet \<Rightarrow> ('p, 'g) ShipNet \<times> 'o Adam" where
  "step L opt n =
     (case step_one L (adam_lr opt) (online n) (adam_state opt) of (on, st1) \<Rightarrow>
      case step_one L (adam_lr opt) (target n) st1 of (tg, st2) \<Rightarrow>
        (n\<lparr>online := on, target := tg\<rparr>, opt\<lparr>adam_state := st2\<rparr>))"

text \<open>
  \<^verbatim>\<open>loss.backward()\<close>: the loss depends on the online weights through the TD estimate
  (the online network on \<open>state\<close>, gathered at \<open>action\<close>); the TD target is computed under
  \<^verbatim>\<open>torch.no_grad()\<close> and is a constant of the graph. A gradient is left only on a
  parameter set of the graph that requires one.
\<close>

definition backward ::
  "('p, 's, 'g, 'o) torch \<Rightarrow> ('p, 'g) ShipNet \<Rightarrow> 's list \<Rightarrow> int list \<Rightarrow> scalar list
     \<Rightarrow> ('p, 'g) ShipNet" where
  "backward L n state action td_tgt =
     (if requires_grad (online n)
      then n\<lparr>online := (online n)\<lparr>grad := Some (loss_grad L (data (online n)) state action td_tgt)\<rparr>\<rparr>
      else n)"

subsection \<open>Ship\<close>

text \<open>A stored experience: \<^verbatim>\<open>(state, next_state, action, reward, done)\<close>.\<close>

type_synonym 's transition = "'s \<times> 's \<times> int \<times> scalar \<times> bool"

record ('p, 's, 'g, 'o) Ship =
  state_dim :: "int \<times> int \<times> int"
  action_dim :: int
  save_dir :: string
  use_cuda :: bool
  lr :: real
  net :: "('p, 'g) ShipNet"
  exploration_rate :: real
  exploration_rate_decay :: real
  exploration_rate_min :: real
  curr_step :: int
  save_every :: int
  memory :: "'s transition deque"
  batch_size :: int
  Q :: "scalar option"
  gamma :: scalar
  loss :: scalar
  optimizer :: "'o Adam"
  burn_in :: int
  learn_every :: int
  sync_every :: int

text \<open>
  \<^verbatim>\<open>Ship.__init__\<close>, every keyword argument given; the only exception it can raise is
  the one of \<^verbatim>\<open>ShipNet.__init__\<close>.
\<close>

definition Ship_init ::
  "('p, 's, 'g, 'o) torch \<Rightarrow> int \<times> int \<times> int \<Rightarrow> int \<Rightarrow> string \<Rightarrow> real \<Rightarrow> real \<Rightarrow> real
     \<Rightarrow> int \<Rightarrow> int \<Rightarrow> scalar \<Rightarrow> real \<Rightarrow> int \<Rightarrow> int \<Rightarrow> int \<Rightarrow> error + ('p, 's, 'g, 'o) Ship" where
  "Ship_init L sd ad dir er erd erm se bs gm rate bi le sy =
     (case ShipNet_init L sd ad of
        Inl e \<Rightarrow> Inl e
      | Inr n \<Rightarrow>
          Inr \<lparr>state_dim = sd, action_dim = ad, save_dir = dir,
               use_cuda = cuda_is_available L, lr = rate, net = n,
               exploration_rate = er, exploration_rate_decay = erd,
               exploration_rate_min = erm, curr_step = 0, save_every = se,
               memory = deque_new 1000, batch_size = bs, Q = None, gamma = gm, loss = 0,
               optimizer = Adam_init L rate, burn_in = bi, learn_every = le,
               sync_every = sy\<rparr>)"

text \<open>The constructor with the defaults of its signature.\<close>

definition Ship_default ::
  "('p, 's, 'g, 'o) torch \<Rightarrow> int \<times> int \<times> int \<Rightarrow> int \<Rightarrow> string \<Rightarrow> error + ('p, 's, 'g, 'o) Ship" where
  "Ship_default L sd ad dir =
     Ship_init L sd ad dir 1 (99999975 / 100000000) (1 / 10) 500000 32 (Fin (9 / 10))
       (25 / 100000) 10000 3 10000"

text \<open>
  \<^verbatim>\<open>act(state)\<close>. \<open>u\<close> is the value of \<^verbatim>\<open>np.random.rand()\<close> and \<open>r\<close> the raw draw behind
  \<^verbatim>\<open>np.random.randint\<close>. The exploration rate and the step counter are updated after
  the branch, so an exception raised in the branch leaves the agent as it was.
\<close>

definition act ::
  "('p, 's, 'g, 'o) torch \<Rightarrow> real \<Rightarrow> nat \<Rightarrow> 's \<Rightarrow> ('p, 's, 'g, 'o) Ship
     \<Rightarrow> (error + int \<times> scalar list list) \<times> ('p, 's, 'g, 'o) Ship" where
  "act L u r state s =
     (let action_values = [[1, 1, 1, 1, 1, 1]];
          branch =
            (if u < exploration_rate s
             then (case randint r (action_dim s) of
                     Inl e \<Rightarrow> Inl e
                   | Inr action_to_take \<Rightarrow> Inr (action_to_take, action_values))
             else (case forward L (net s) [state] ''online'' of
                     Inl e \<Rightarrow> Inl e
                   | Inr None \<Rightarrow> Inl TypeError
                   | Inr (Some action_values) \<Rightarrow>
                       (case argmax_axis1 action_values of
                          Inl e \<Rightarrow> Inl e
                        | Inr best \<Rightarrow> Inr (hd best, action_values))))
      in case branch of
           Inl e \<Rightarrow> (Inl e, s)
         | Inr res \<Rightarrow>
             (Inr res,
              s\<lparr>exploration_rate :=
                   max (exploration_rate_min s) (exploration_rate s * exploration_rate_decay s),
                 curr_step := curr_step s + 1\<rparr>))"

definition cache ::
  "('p, 's, 'g, 'o) Ship \<Rightarrow> 's \<Rightarrow> 's \<Rightarrow> int \<Rightarrow> scalar \<Rightarrow> bool \<Rightarrow> ('p, 's, 'g, 'o) Ship" where
  "cache s state next_state action reward done =
     s\<lparr>memory := deque_append (memory s) (state, next_state, action, reward, done)\<rparr>"

text \<open>Caching a sequence of experiences, oldest first.\<close>

fun cache_all :: "('p, 's, 'g, 'o) Ship \<Rightarrow> 's transition list \<Rightarrow> ('p, 's, 'g, 'o) Ship" where
  "cache_all s [] = s"
| "cache_all s ((st, ns, a, r, d) # ts) = cache_all (cache s st ns a r d) ts"

text \<open>
  The five fields of a batch, stacked: \<^verbatim>\<open>map(torch.stack, zip(*batch))\<close>. Unpacking
  the result into five names raises \<^verbatim>\<open>ValueError\<close> when the batch is empty.
\<close>

definition stack_fields ::
  "'s transition list \<Rightarrow> 's list \<times> 's list \<times> int list \<times> scalar list \<times> bool list" where
  "stack_fields batch =
     (map (\<lambda>(st, ns, a, r, d). st) batch, map (\<lambda>(st, ns, a, r, d). ns) batch,
      map (\<lambda>(st, ns, a, r, d). a) batch, map (\<lambda>(st, ns, a, r, d). r) batch,
      map (\<lambda>(st, ns, a, r, d). d) batch)"

definition recall ::
  "(nat \<Rightarrow> nat) \<Rightarrow> ('p, 's, 'g, 'o) Ship
     \<Rightarrow> error + 's list \<times> 's list \<times> int list \<times> scalar list \<times> bool list" where
  "recall rnd s =
     (case random_sample rnd (items (memory s)) (batch_size s) of
        Inl e \<Rightarrow> Inl e
      | Inr batch \<Rightarrow> if batch = [] then Inl ValueError else Inr (stack_fields batch))"

definition td_estimate ::
  "('p, 's, 'g, 'o) torch \<Rightarrow> ('p, 's, 'g, 'o) Ship \<Rightarrow> 's list \<Rightarrow> int list \<Rightarrow> error + scalar list" where
  "td_estimate L s state action =
     (case forward L (net s) state ''online'' of
        Inl e \<Rightarrow> Inl e
      | Inr None \<Rightarrow> Inl TypeError
      | Inr (Some q) \<Rightarrow> gather q (batch_size s) action)"

text \<open>
  \<^verbatim>\<open>td_target(reward, next_state, done)\<close>; \<^verbatim>\<open>done.float()\<close> is 1 for true and 0 for
  false. The three operands of the last line have one entry per transition, and the
  product is taken from the left, as Python does: \<open>((1 - done) * gamma) * next_Q\<close>.
\<close>

definition done_float :: "bool \<Rightarrow> scalar" where
  "done_float dn = (if dn then 1 else 0)"

definition td_target ::
  "('p, 's, 'g, 'o) torch \<Rightarrow> ('p, 's, 'g, 'o) Ship \<Rightarrow> scalar list \<Rightarrow> 's list \<Rightarrow> bool list
     \<Rightarrow> error + scalar list" where
  "td_target L s reward next_state done =
     (case forward L (net s) next_state ''online'' of
        Inl e \<Rightarrow> Inl e
      | Inr None \<Rightarrow> Inl TypeError
      | Inr (Some next_state_Q) \<Rightarrow>
          (case argmax_axis1 next_state_Q of
             Inl e \<Rightarrow> Inl e
           | Inr best_action \<Rightarrow>
               (case forward L (net s) next_state ''target'' of
                  Inl e \<Rightarrow> Inl e
                | Inr None \<Rightarrow> Inl TypeError
                | Inr (Some target_Q) \<Rightarrow>
                    (case gather target_Q (batch_size s) best_action of
                       Inl e \<Rightarrow> Inl e
                     | Inr next_Q \<Rightarrow>
                         Inr (map (\<lambda>(rw, dn, nq). rw + (1 - done_float dn) * gamma s * nq)
                                (zip reward (zip done next_Q)))))))"

text \<open>
  \<^verbatim>\<open>update_Q_online(td_estimate, td_target)\<close>. The tensor \<open>td_estimate\<close> carries its
  graph in the Python; here the graph is the pair \<open>state\<close>, \<open>action\<close> it was computed from.
\<close>

definition update_Q_online ::
  "('p, 's, 'g, 'o) torch \<Rightarrow> ('p, 's, 'g, 'o) Ship \<Rightarrow> 's list \<Rightarrow> int list \<Rightarrow> scalar list
     \<Rightarrow> scalar list \<Rightarrow> scalar \<times> ('p, 's, 'g, 'o) Ship" where
  "update_Q_online L s state action td_est td_tgt =
     (let l = loss_fn td_est td_tgt;
          n1 = zero_grad (net s);
          n2 = backward L n1 state action td_tgt
      in case step L (optimizer s) n2 of
           (n3, opt) \<Rightarrow> (l, s\<lparr>net := n3, optimizer := opt\<rparr>))"

definition sync_Q_target :: "('p, 's, 'g, 'o) Ship \<Rightarrow> ('p, 's, 'g, 'o) Ship" where
  "sync_Q_target s =
     s\<lparr>net := (net s)\<lparr>target := (target (net s))\<lparr>data := data (online (net s))\<rparr>\<rparr>\<rparr>"

text \<open>
  \<^verbatim>\<open>learn()\<close>. Python's \<^verbatim>\<open>%\<close> raises \<^verbatim>\<open>ZeroDivisionError\<close> on a zero divisor and
  otherwise agrees with \<open>mod\<close> on \<open>int\<close> (the result has the sign of the divisor). An
  exception leaves the agent as it was when raised. \<open>learn_step\<close> is the body of the
  method below its three gates: sampling, estimate, target, update.
\<close>

definition learn_step ::
  "('p, 's, 'g, 'o) torch \<Rightarrow> (nat \<Rightarrow> nat) \<Rightarrow> ('p, 's, 'g, 'o) Ship
     \<Rightarrow> (error + scalar option \<times> scalar option) \<times> ('p, 's, 'g, 'o) Ship" where
  "learn_step L rnd s =
     (case recall rnd s of
        Inl e \<Rightarrow> (Inl e, s)
      | Inr (state, next_state, action, reward, done) \<Rightarrow>
          (case td_estimate L s state action of
             Inl e \<Rightarrow> (Inl e, s)
           | Inr td_est \<Rightarrow>
               (case td_target L s reward next_state done of
                  Inl e \<Rightarrow> (Inl e, s)
                | Inr td_tgt \<Rightarrow>
                    (case update_Q_online L s state action td_est td_tgt of
                       (l, s') \<Rightarrow>
                         (Inr (Some (mean td_est), Some l),
                          s'\<lparr>loss := l, Q := Some (mean td_est)\<rparr>)))))"

definition learn ::
  "('p, 's, 'g, 'o) torch \<Rightarrow> (nat \<Rightarrow> nat) \<Rightarrow> ('p, 's, 'g, 'o) Ship
     \<Rightarrow> (error + scalar option \<times> scalar option) \<times> ('p, 's, 'g, 'o) Ship" where
  "learn L rnd s =
     (if sync_every s = 0 then (Inl ZeroDivisionError, s)
      else
        let s1 = (if curr_step s mod sync_every s = 0 then sync_Q_target s else s)
        in if curr_step s1 < burn_in s1 then (Inr (None, None), s1)
           else if learn_every s1 = 0 then (Inl ZeroDivisionError, s1)
           else if curr_step s1 mod learn_every s1 \<noteq> 0 then (Inr (None, None), s1)
           else learn_step L rnd s1)"

subsection \<open>Checkpoints\<close>

text \<open>
  The dictionary written by \<^verbatim>\<open>save\<close>, one field per key. The file system is a map
  from paths to checkpoints; \<^verbatim>\<open>torch.load\<close> of a path that holds nothing raises.
\<close>

record ('p, 's) checkpoint =
  ck_net :: "'p \<times> 'p"
  ck_exploration_rate :: real
  ck_exploration_rate_decay :: real
  ck_exploration_rate_min :: real
  ck_save_every :: int
  ck_batch_size :: int
  ck_gamma :: scalar
  ck_lr :: real
  ck_burn_in :: int
  ck_learn_every :: int
  ck_sync_every :: int
  ck_curr_step :: int
  ck_memory :: "'s transition deque"

type_synonym ('p, 's) files = "string \<rightharpoonup> ('p, 's) checkpoint"

text \<open>The decimal numeral of an integer, as an f-string prints it.\<close>

fun show_nat :: "nat \<Rightarrow> string" where
  "show_nat n =
     (if n < 10 then [''0123456789'' ! n]
      else show_nat (n div 10) @ [''0123456789'' ! (n mod 10)])"

declare show_nat.simps [simp del]

definition show_int :: "int \<Rightarrow> string" where
  "show_int i = (if i < 0 then ''-'' @ show_nat (nat (- i)) else show_nat (nat i))"

definition save_path :: "('p, 's, 'g, 'o) Ship \<Rightarrow> string" where
  "save_path s = save_dir s @ ''/'' @ ''space-invaders_net_'' @ show_int (curr_step s) @ ''.chkpt''"

definition checkpoint_of :: "('p, 's, 'g, 'o) Ship \<Rightarrow> ('p, 's) checkpoint" where
  "checkpoint_of s =
     \<lparr>ck_net = state_dict (net s),
      ck_exploration_rate = exploration_rate s,
      ck_exploration_rate_decay = exploration_rate_decay s,
      ck_exploration_rate_min = exploration_rate_min s,
      ck_save_every = save_every s,
      ck_batch_size = batch_size s,
      ck_gamma = gamma s,
      ck_lr = lr s,
      ck_burn_in = burn_in s,
      ck_learn_every = learn_every s,
      ck_sync_every = sync_every s,
      ck_curr_step = curr_step s,
      ck_memory = memory s\<rparr>"

definition save :: "('p, 's, 'g, 'o) Ship \<Rightarrow> ('p, 's) files \<Rightarrow> string \<times> ('p, 's) files" where
  "save s fs = (save_path s, fs(save_path s \<mapsto> checkpoint_of s))"

text \<open>\<^verbatim>\<open>load(load_path)\<close>, assignment by assignment.\<close>

definition load ::
  "('p, 's, 'g, 'o) torch \<Rightarrow> ('p, 's) files \<Rightarrow> string \<Rightarrow> ('p, 's, 'g, 'o) Ship
     \<Rightarrow> (error + unit) \<times> ('p, 's, 'g, 'o) Ship" where
  "load L fs load_path s =
     (case fs load_path of
        None \<Rightarrow> (Inl FileNotFoundError, s)
      | Some ck \<Rightarrow>
          (Inr (),
           s\<lparr>net := load_state_dict (net s) (ck_net ck),
             exploration_rate := ck_exploration_rate ck,
             exploration_rate_decay := ck_exploration_rate_decay ck,
             exploration_rate_min := ck_exploration_rate_min ck,
             save_every := ck_save_every ck,
             batch_size := ck_batch_size ck,
             gamma := ck_gamma ck,
             optimizer := Adam_init L (ck_lr ck),
             burn_in := ck_burn_in ck,
             learn_every := ck_learn_every ck,
             sync_every := ck_sync_every ck,
             curr_step := ck_curr_step ck,
             memory := ck_memory ck\<rparr>))"

subsection \<open>A small instance of the library, to run the model\<close>

text \<open>
  Observations are numbers, a parameter set is one weight per action, the network is
  linear (\<open>Q(x, a) = w\<^sub>a * x\<close>), the gradient is taken as given and the update is a
  plain gradient step.
\<close>

definition toy_torch :: "(real list, real, real list, nat) torch" where
  "toy_torch =
     \<lparr>cuda_is_available = False,
      init_params = (\<lambda>c n. map (\<lambda>k. real k + 1) [0..<nat n]),
      apply_net = (\<lambda>w x. Inr (map (\<lambda>wa. Fin (wa * x)) w)),
      loss_grad = (\<lambda>w state action td_tgt. map (\<lambda>wa. 1) w),
      adam_init = 0,
      adam_update = (\<lambda>rate st w g. (map (\<lambda>(wa, ga). wa - rate * ga) (zip w g), Suc st))\<rparr>"

text \<open>An agent over the toy library, \<open>projr\<close> of a constructor call that succeeds.\<close>

definition toy_ship ::
  "int \<Rightarrow> real \<Rightarrow> real \<Rightarrow> real \<Rightarrow> int \<Rightarrow> real \<Rightarrow> int \<Rightarrow> int \<Rightarrow> int
     \<Rightarrow> (real list, real, real list, nat) Ship" where
  "toy_ship ad er erd erm bs rate bi le sy =
     projr (Ship_init toy_torch (4, 84, 84) ad ''ckpt'' er erd erm 500000 bs (Fin (9 / 10)) rate bi le sy)"

text \<open>
  A short run of a two-action agent (batch size 2, no burn-in, learning at every step,
  synchronising at every second step): two experiences are cached, one action is taken,
  one learning step is made, and a second action is taken.
\<close>

definition demo_cached :: "(real list, real, real list, nat) Ship" where
  "demo_cached =
     cache_all (toy_ship 2 1 (1 / 2) (1 / 10) 2 (1 / 4) 0 1 2)
       [(1, 2, 0, 1, False), (2, 3, 1, 0, True)]"

definition demo_stepped :: "(real list, real, real list, nat) Ship" where
  "demo_stepped = snd (act toy_torch 0 0 1 demo_cached)"

definition demo_learned :: "(real list, real, real list, nat) Ship" where
  "demo_learned = snd (learn toy_torch (\<lambda>i. 0) demo_stepped)"

definition demo_stepped_again :: "(real list, real, real list, nat) Ship" where
  "demo_stepped_again = snd (act toy_torch 0 0 1 demo_learned)"

text \<open>
  The agent of the run after loading a checkpoint whose online and target weights rank
  the two actions differently.
\<close>

definition demo_diverged :: "(real list, real, real list, nat) Ship" where
  "demo_diverged =
     snd (load toy_torch
            [''w'' \<mapsto> (checkpoint_of demo_stepped)\<lparr>ck_net := ([2, 1], [1, 2])\<rparr>] ''w''
            demo_stepped)"

section \<open>Properties\<close>

subsection \<open>The replay buffer\<close>

lemma maxlen_deque_append: "maxlen (deque_append d x) = maxlen d"
  by (simp add: deque_append_def Let_def)

lemma items_deque_append:
  assumes "length (items d) \<le> maxlen d"
  shows "items (deque_append d x) = drop (Suc (length (items d)) - maxlen d) (items d @ [x])"
proof (cases "maxlen d = 0")
  case True
  with assms show ?thesis by (simp add: deque_append_def)
next
  case False
  show ?thesis
  proof (cases "length (items d) = maxlen d")
    case True
    with False have "items d \<noteq> []" by auto
    with True False show ?thesis
      by (simp add: deque_append_def Let_def drop_Suc)
  next
    case False
    with assms have "Suc (length (items d)) \<le> maxlen d" by simp
    then show ?thesis by (simp add: deque_append_def Let_def)
  qed
qed

lemma length_deque_append:
  "length (items d) \<le> maxlen d \<Longrightarrow> length (items (deque_append d x)) \<le> maxlen d"
  by (auto simp: deque_append_def Let_def)

lemma maxlen_cache_all: "maxlen (memory (cache_all s ts)) = maxlen (memory s)"
  by (induction s ts rule: cache_all.induct) (simp_all add: cache_def maxlen_deque_append)

lemma items_cache_all:
  "length (items (memory s)) \<le> maxlen (memory s) \<Longrightarrow>
   items (memory (cache_all s ts)) =
     drop (length (items (memory s)) + length ts - maxlen (memory s)) (items (memory s) @ ts)"
proof (induction s ts rule: cache_all.induct)
  case (1 s)
  then show ?case by simp
next
  case (2 s st ns a r d ts)
  let ?t = "(st, ns, a, r, d)"
  let ?s' = "cache s st ns a r d"
  let ?xs = "items (memory s)"
  let ?m = "maxlen (memory s)"
  have m': "maxlen (memory ?s') = ?m"
    by (simp add: cache_def maxlen_deque_append)
  have it: "items (memory ?s') = drop (Suc (length ?xs) - ?m) (?xs @ [?t])"
    using "2.prems" by (simp add: cache_def items_deque_append)
  have le: "length (items (memory ?s')) \<le> maxlen (memory ?s')"
    using "2.prems" by (simp add: cache_def length_deque_append maxlen_deque_append)
  have "items (memory (cache_all ?s' ts)) =
      drop (length (items (memory ?s')) + length ts - ?m) (items (memory ?s') @ ts)"
    using "2.IH" [OF le] m' by simp
  also have "\<dots> = drop (length ?xs + length (?t # ts) - ?m) (?xs @ ?t # ts)"
  proof (cases "Suc (length ?xs) \<le> ?m")
    case True
    then show ?thesis by (simp add: it)
  next
    case False
    with "2.prems" have eq: "length ?xs = ?m" by simp
    show ?thesis
    proof (cases "?xs")
      case Nil
      with eq it show ?thesis by simp
    next
      case (Cons y ys)
      with eq have it': "items (memory ?s') = ys @ [?t]"
        using it by simp
      from Cons eq have "length ys + 1 = ?m" by simp
      then show ?thesis
        unfolding it' Cons by (simp add: drop_Suc)
    qed
  qed
  finally show ?case by simp
qed

lemma Ship_init_memory:
  "Ship_init L sd ad dir er erd erm se bs gm rate bi le sy = Inr s0 \<Longrightarrow>
   memory s0 = deque_new 1000"
  by (auto simp: Ship_init_def split: sum.splits)

lemma toy_ship_init:
  "0 \<le> ad \<Longrightarrow>
   Ship_init toy_torch (4, 84, 84) ad ''ckpt'' er erd erm 500000 bs (Fin (9 / 10)) rate bi le sy
     = Inr (toy_ship ad er erd erm bs rate bi le sy)"
  by (simp add: toy_ship_def Ship_init_def ShipNet_init_def Let_def)

text \<open>
  Claim C5. The replay buffer of a constructed agent is a FIFO of capacity 1000: it starts
  empty with \<open>maxlen = 1000\<close>; after caching any sequence \<open>ts\<close> of experiences it never
  holds more than 1000 of them and holds exactly the last 1000 of \<open>ts\<close> in insertion order
  (all of \<open>ts\<close> when there are fewer; after \<open>1000 + k\<close> pushes, \<open>ts\<close> without its first \<open>k\<close>);
  and caching into a full buffer drops the oldest experience and appends the new one.
\<close>

theorem replay_buffer_fifo:
  assumes "Ship_init L sd ad dir er erd erm se bs gm rate bi le sy = Inr s0"
  shows "maxlen (memory s0) = 1000 \<and> items (memory s0) = [] \<and>
    length (items (memory (cache_all s0 ts))) \<le> 1000 \<and>
    items (memory (cache_all s0 ts)) = drop (length ts - 1000) ts \<and>
    (length (items (memory (cache_all s0 ts))) = 1000 \<longrightarrow>
       items (memory (cache (cache_all s0 ts) st ns a r d)) =
         tl (items (memory (cache_all s0 ts))) @ [(st, ns, a, r, d)])"
proof -
  have m: "memory s0 = deque_new 1000"
    using assms by (rule Ship_init_memory)
  then have a: "maxlen (memory s0) = 1000" and b: "items (memory s0) = []"
    by (simp_all add: deque_new_def)
  have c: "items (memory (cache_all s0 ts)) = drop (length ts - 1000) ts"
    using items_cache_all [of s0 ts] a b by simp
  have d: "maxlen (memory (cache_all s0 ts)) = 1000"
    using a by (simp add: maxlen_cache_all)
  have e: "length (items (memory (cache_all s0 ts))) \<le> 1000"
    unfolding c by simp
  have f: "items (memory (cache (cache_all s0 ts) st ns a r d)) =
         tl (items (memory (cache_all s0 ts))) @ [(st, ns, a, r, d)]"
    if "length (items (memory (cache_all s0 ts))) = 1000"
  proof -
    from that have "items (memory (cache_all s0 ts)) \<noteq> []" by auto
    with that d show ?thesis
      by (simp add: cache_def deque_append_def Let_def)
  qed
  from a b c e f show ?thesis by blast
qed

text \<open>The buffer after 1002 pushes: the first two experiences are gone.\<close>

theorem replay_buffer_fifo_witness:
  "items (memory (cache_all (toy_ship 6 1 (1 / 2) (1 / 10) 2 (1 / 4) 0 1 1)
       (map (\<lambda>k. (real k, real k + 1, 0, 1, False)) [0..<1002])))
     = map (\<lambda>k. (real k, real k + 1, 0, 1, False)) [2..<1002]"
proof -
  let ?ts = "map (\<lambda>k. (real k, real k + 1, 0::int, 1::scalar, False)) [0..<1002]"
  have len: "length ?ts - 1000 = 2"
    by (simp only: length_map length_upt)
  have dr: "drop 2 [0..<1002] = [2..<1002]"
    by (simp only: drop_upt add_0)
  have init: "Ship_init toy_torch (4, 84, 84) 6 ''ckpt'' 1 (1 / 2) (1 / 10) 500000 2
      (Fin (9 / 10)) (1 / 4) 0 1 1 = Inr (toy_ship 6 1 (1 / 2) (1 / 10) 2 (1 / 4) 0 1 1)"
    by (rule toy_ship_init) simp
  have "items (memory (cache_all (toy_ship 6 1 (1 / 2) (1 / 10) 2 (1 / 4) 0 1 1) ?ts))
      = drop (length ?ts - 1000) ?ts"
    using replay_buffer_fifo [OF init, of ?ts]
    by blast
  then show ?thesis
    by (simp only: len drop_map dr)
qed


subsection \<open>The action selector\<close>

lemma toy_ship_fields:
  assumes "0 \<le> ad"
  shows "action_dim (toy_ship ad er erd erm bs rate bi le sy) = ad"
  "exploration_rate (toy_ship ad er erd erm bs rate bi le sy) = er"
  "exploration_rate_decay (toy_ship ad er erd erm bs rate bi le sy) = erd"
  "exploration_rate_min (toy_ship ad er erd erm bs rate bi le sy) = erm"
  "batch_size (toy_ship ad er erd erm bs rate bi le sy) = bs"
  "lr (toy_ship ad er erd erm bs rate bi le sy) = rate"
  "burn_in (toy_ship ad er erd erm bs rate bi le sy) = bi"
  "learn_every (toy_ship ad er erd erm bs rate bi le sy) = le"
  "sync_every (toy_ship ad er erd erm bs rate bi le sy) = sy"
  "curr_step (toy_ship ad er erd erm bs rate bi le sy) = 0"
  "memory (toy_ship ad er erd erm bs rate bi le sy) = deque_new 1000"
  "optimizer (toy_ship ad er erd erm bs rate bi le sy) = \<lparr>adam_lr = rate, adam_state = 0\<rparr>"
  using assms
  by (simp_all add: toy_ship_def Ship_init_def ShipNet_init_def Let_def Adam_init_def toy_torch_def)

lemma act_returns:
  assumes "fst (act L u r state s) = Inr res"
  shows "snd (act L u r state s) =
     s\<lparr>exploration_rate :=
          max (exploration_rate_min s) (exploration_rate s * exploration_rate_decay s),
        curr_step := curr_step s + 1\<rparr>"
  using assms by (auto simp: act_def Let_def split: sum.splits option.splits if_splits)

lemma act_raises:
  assumes "fst (act L u r state s) = Inl e"
  shows "snd (act L u r state s) = s"
  using assms by (auto simp: act_def Let_def split: sum.splits option.splits if_splits)

lemma act_total:
  assumes "0 < action_dim s"
    and "apply_net L (data (online (net s))) state = Inr row" and "row \<noteq> []"
  shows "\<exists>res. fst (act L u r state s) = Inr res"
  using assms
  by (auto simp: act_def Let_def randint_def forward_def run_stack_def argmax_axis1_def
      argmax_def)

text \<open>
  Claim C4, as amended. Whenever \<^verbatim>\<open>act\<close> returns, in either branch, the exploration rate
  it leaves is \<open>max exploration_rate_min (e * exploration_rate_decay)\<close> for the rate \<open>e\<close>
  before the call, the step counter has grown by exactly 1, and the new rate is not
  below the floor; the new rate does not exceed \<open>e\<close> provided the floor is at most \<open>e\<close>,
  \<open>e\<close> is not negative and the decay is at most 1. The call returns whenever
  \<open>action_dim\<close> is positive and the network returns a row that is not empty.
\<close>

theorem act_exploration_decay:
  "(fst (act L u r state s) = Inr res \<longrightarrow>
      exploration_rate (snd (act L u r state s)) =
        max (exploration_rate_min s) (exploration_rate s * exploration_rate_decay s) \<and>
      curr_step (snd (act L u r state s)) = curr_step s + 1 \<and>
      exploration_rate_min s \<le> exploration_rate (snd (act L u r state s)) \<and>
      (exploration_rate_min s \<le> exploration_rate s \<and> 0 \<le> exploration_rate s \<and>
       exploration_rate_decay s \<le> 1 \<longrightarrow>
         exploration_rate (snd (act L u r state s)) \<le> exploration_rate s)) \<and>
   (0 < action_dim s \<and>
    (\<exists>row. apply_net L (data (online (net s))) state = Inr row \<and> row \<noteq> []) \<longrightarrow>
      (\<exists>res'. fst (act L u r state s) = Inr res'))"
proof -
  have "exploration_rate s * exploration_rate_decay s \<le> exploration_rate s"
    if "0 \<le> exploration_rate s" "exploration_rate_decay s \<le> 1"
    using that mult_left_le by blast
  then show ?thesis
    using act_total [of s L state _ u r] by (auto simp: act_returns)
qed

text \<open>One exploring call from rate 1 with decay 1/2: the rate becomes 1/2, the step 1.\<close>

theorem act_exploration_decay_witness:
  "fst (act toy_torch 0 4 1 (toy_ship 3 1 (1 / 2) (1 / 10) 2 (1 / 4) 0 1 1)) = Inr (1, [[1, 1, 1, 1, 1, 1]]) \<and>
   exploration_rate (snd (act toy_torch 0 4 1 (toy_ship 3 1 (1 / 2) (1 / 10) 2 (1 / 4) 0 1 1))) = 1 / 2 \<and>
   curr_step (snd (act toy_torch 0 4 1 (toy_ship 3 1 (1 / 2) (1 / 10) 2 (1 / 4) 0 1 1))) = 1"
proof -
  have r: "fst (act toy_torch 0 4 1 (toy_ship 3 1 (1 / 2) (1 / 10) 2 (1 / 4) 0 1 1))
      = Inr (1, [[1, 1, 1, 1, 1, 1]])"
    by (simp add: act_def toy_ship_fields randint_def)
  show ?thesis
    using r act_exploration_decay [of toy_torch 0 4 1 "toy_ship 3 1 (1 / 2) (1 / 10) 2 (1 / 4) 0 1 1"
        "(1, [[1, 1, 1, 1, 1, 1]])"]
    by (simp add: toy_ship_fields)
qed

text \<open>
  The claim as stated (the rate never rises, for every rate) fails for an agent
  constructed with a rate below the floor: from 1/20 with floor 1/10 one call raises
  the rate to 1/10.
\<close>

theorem act_rate_rises_counterexample:
  "fst (act toy_torch 0 0 1 (toy_ship 6 (1 / 20) (1 / 2) (1 / 10) 2 (1 / 4) 0 1 1)) = Inr (0, [[1, 1, 1, 1, 1, 1]]) \<and>
   exploration_rate (toy_ship 6 (1 / 20) (1 / 2) (1 / 10) 2 (1 / 4) 0 1 1) = 1 / 20 \<and>
   exploration_rate (snd (act toy_torch 0 0 1 (toy_ship 6 (1 / 20) (1 / 2) (1 / 10) 2 (1 / 4) 0 1 1))) = 1 / 10"
  by (simp add: act_def toy_ship_fields randint_def)

text \<open>
  Claim C10. In the exploring branch (\<open>u < exploration_rate\<close>) with a positive
  \<open>action_dim\<close>, the returned \<open>action_values\<close> are the constant one-row array of six ones,
  whatever the state and whatever \<open>action_dim\<close> is, and the returned action is the random
  draw reduced into \<open>[0, action_dim)\<close>; every action of that range is returned for
  some draw. (The distribution of the draw is numpy's and is not part of the model.)
\<close>

theorem act_explore_placeholder:
  assumes "u < exploration_rate s" and "0 < action_dim s"
  shows "fst (act L u r state s) = Inr (int r mod action_dim s, [[1, 1, 1, 1, 1, 1]]) \<and>
    0 \<le> int r mod action_dim s \<and> int r mod action_dim s < action_dim s \<and>
    (0 \<le> a \<and> a < action_dim s \<longrightarrow>
       fst (act L u (nat a) state s) = Inr (a, [[1, 1, 1, 1, 1, 1]]))"
  using assms by (auto simp: act_def randint_def)

text \<open>With three actions the placeholder still has six entries.\<close>

theorem act_explore_placeholder_witness:
  "fst (act toy_torch (1 / 2) 7 5 (toy_ship 3 1 (1 / 2) (1 / 10) 2 (1 / 4) 0 1 1))
     = Inr (1, [[1, 1, 1, 1, 1, 1]])"
  using act_explore_placeholder [of "1 / 2" "toy_ship 3 1 (1 / 2) (1 / 10) 2 (1 / 4) 0 1 1" toy_torch 7 5 0]
  by (simp add: toy_ship_fields)


subsection \<open>The function approximator\<close>

lemma collect_Inl:
  "collect rs = Inl e \<Longrightarrow> Inl e \<in> set rs"
  by (induction rs rule: collect.induct) (auto split: sum.splits)

lemma forward_raises_only_stack:
  assumes "forward L m input model = Inl e"
  shows "\<exists>x \<in> set input. apply_net L (data (online m)) x = Inl e \<or>
     apply_net L (data (target m)) x = Inl e"
proof -
  from assms have "Inl e \<in> set (map (apply_net L (data (online m))) input) \<or>
      Inl e \<in> set (map (apply_net L (data (target m))) input)"
    by (auto simp: forward_def run_stack_def split: if_splits sum.splits dest: collect_Inl)
  then show ?thesis by auto
qed



subsection \<open>The learner\<close>

lemma sync_Q_target_fields:
  "data (target (net (sync_Q_target s))) = data (online (net s))"
  "online (net (sync_Q_target s)) = online (net s)"
  "requires_grad (target (net (sync_Q_target s))) = requires_grad (target (net s))"
  "grad (target (net (sync_Q_target s))) = grad (target (net s))"
  "curr_step (sync_Q_target s) = curr_step s"
  "burn_in (sync_Q_target s) = burn_in s"
  "learn_every (sync_Q_target s) = learn_every s"
  "sync_every (sync_Q_target s) = sync_every s"
  "memory (sync_Q_target s) = memory s"
  "batch_size (sync_Q_target s) = batch_size s"
  "optimizer (sync_Q_target s) = optimizer s"
  by (simp_all add: sync_Q_target_def)

lemma update_Q_online_target:
  "target (net (snd (update_Q_online L s state action td_est td_tgt))) =
     (target (net s))\<lparr>grad := None\<rparr>"
  by (simp add: update_Q_online_def Let_def step_def zero_grad_def backward_def step_one_def
      split: prod.splits option.splits)

lemma update_Q_online_target_data:
  assumes "update_Q_online L s state action td_est td_tgt = (l, s')"
  shows "data (target (net s')) = data (target (net s))"
proof -
  have "s' = snd (update_Q_online L s state action td_est td_tgt)"
    using assms by simp
  then show ?thesis by (simp add: update_Q_online_target)
qed

lemma learn_step_target:
  "data (target (net (snd (learn_step L rnd s)))) = data (target (net s))"
  by (auto simp: learn_step_def split: sum.splits prod.splits
      dest: update_Q_online_target_data)

lemma learn_target:
  "data (target (net (snd (learn L rnd s)))) =
     (if sync_every s \<noteq> 0 \<and> curr_step s mod sync_every s = 0
      then data (online (net s)) else data (target (net s)))"
  by (simp add: learn_def Let_def learn_step_target sync_Q_target_fields)

text \<open>
  Claim C2, as amended. For every agent with \<open>sync_every \<noteq> 0\<close>, \<^verbatim>\<open>learn\<close> returns
  \<^verbatim>\<open>(None, None)\<close> whenever \<open>curr_step < burn_in\<close>, and also whenever \<open>learn_every \<noteq> 0\<close>
  and \<open>curr_step mod learn_every \<noteq> 0\<close>. Nothing is sampled and no parameter is updated
  by gradient descent: the agent left behind is the one before the call, with the
  target overwritten by the hard sync when \<open>curr_step mod sync_every = 0\<close>, so the sync
  check comes before both early returns and a sync can occur during burn-in. With
  \<open>sync_every = 0\<close> the sync check itself raises \<^verbatim>\<open>ZeroDivisionError\<close>.
\<close>

theorem learn_gating:
  "(sync_every s \<noteq> 0 \<and>
    (curr_step s < burn_in s \<or> (learn_every s \<noteq> 0 \<and> curr_step s mod learn_every s \<noteq> 0)) \<longrightarrow>
      learn L rnd s =
        (Inr (None, None), if curr_step s mod sync_every s = 0 then sync_Q_target s else s)) \<and>
   (sync_every s = 0 \<longrightarrow> learn L rnd s = (Inl ZeroDivisionError, s))"
  by (auto simp: learn_def Let_def sync_Q_target_fields)

text \<open>
  Claim C3. \<^verbatim>\<open>sync_Q_target\<close> leaves the target weights equal to the online weights,
  which it does not change: the target is overwritten, not averaged. When \<^verbatim>\<open>learn\<close> is
  called with \<open>curr_step mod sync_every = 0\<close> (and \<open>sync_every \<noteq> 0\<close>, as Python needs to
  evaluate the test), the target weights it leaves are the online weights of the
  moment of the sync, whatever happens afterwards in the call; when the call returns
  during burn-in, target and online weights of the agent left behind are equal.
\<close>

theorem hard_sync:
  "data (target (net (sync_Q_target s))) = data (online (net (sync_Q_target s))) \<and>
   online (net (sync_Q_target s)) = online (net s) \<and>
   (sync_every s \<noteq> 0 \<and> curr_step s mod sync_every s = 0 \<longrightarrow>
      data (target (net (snd (learn L rnd s)))) = data (online (net s)) \<and>
      (curr_step s < burn_in s \<longrightarrow>
         data (target (net (snd (learn L rnd s)))) = data (online (net (snd (learn L rnd s))))))"
proof -
  have "data (target (net (snd (learn L rnd s)))) = data (online (net (snd (learn L rnd s))))"
    if "sync_every s \<noteq> 0" "curr_step s mod sync_every s = 0" "curr_step s < burn_in s"
    using that by (simp add: learn_def Let_def sync_Q_target_fields)
  then show ?thesis
    by (simp add: sync_Q_target_fields learn_target)
qed

text \<open>
  Claim C8. The optimizer step of \<^verbatim>\<open>update_Q_online\<close> changes neither the target
  weights nor their \<^verbatim>\<open>requires_grad\<close> flag, and over a whole call of \<^verbatim>\<open>learn\<close>, gradient
  step or not, the target weights are either unchanged or, when the sync test holds,
  the online weights copied by the hard sync.
\<close>

theorem target_frame:
  "data (target (net (snd (update_Q_online L s state action td_est td_tgt)))) =
     data (target (net s)) \<and>
   requires_grad (target (net (snd (update_Q_online L s state action td_est td_tgt)))) =
     requires_grad (target (net s)) \<and>
   data (target (net (snd (learn L rnd s)))) =
     (if sync_every s \<noteq> 0 \<and> curr_step s mod sync_every s = 0
      then data (online (net s)) else data (target (net s)))"
  by (simp add: update_Q_online_target learn_target)

subsection \<open>Sampling from the replay buffer\<close>

lemma sample_pool_props:
  "distinct pool \<Longrightarrow> k \<le> length pool \<Longrightarrow>
   distinct (sample_pool rnd i pool k) \<and> set (sample_pool rnd i pool k) \<subseteq> set pool \<and>
   length (sample_pool rnd i pool k) = k"
proof (induction k arbitrary: pool i)
  case 0
  then show ?case by simp
next
  case (Suc k)
  then obtain p ps where pool: "pool = p # ps" by (cases pool) auto
  let ?j = "rnd i mod length pool"
  let ?rest = "take ?j pool @ drop (Suc ?j) pool"
  have j: "?j < length pool" using pool by simp
  then have split: "pool = take ?j pool @ pool ! ?j # drop (Suc ?j) pool"
    by (rule id_take_nth_drop)
  have "distinct (take ?j pool @ pool ! ?j # drop (Suc ?j) pool)"
    using Suc.prems(1) split by simp
  then have d: "distinct ?rest" and notin: "pool ! ?j \<notin> set ?rest"
    by auto
  have sub: "set ?rest \<subseteq> set pool"
    by (auto dest: in_set_takeD in_set_dropD)
  have len: "k \<le> length ?rest" using Suc.prems(2) j by simp
  from Suc.IH [OF d len, of "Suc i"]
  have ih: "distinct (sample_pool rnd (Suc i) ?rest k)"
    "set (sample_pool rnd (Suc i) ?rest k) \<subseteq> set ?rest"
    "length (sample_pool rnd (Suc i) ?rest k) = k"
    by auto
  have eq: "sample_pool rnd i pool (Suc k) = pool ! ?j # sample_pool rnd (Suc i) ?rest k"
    unfolding pool by (simp add: Let_def)
  show ?case
    unfolding eq using ih notin sub j by auto
qed

lemma sample_indices_props:
  assumes "k \<le> n"
  shows "distinct (sample_indices rnd n k)" "set (sample_indices rnd n k) \<subseteq> {..<n}"
    "length (sample_indices rnd n k) = k"
  using sample_pool_props [of "[0..<n]" k rnd 0] assms
  by (auto simp: sample_indices_def)

lemma stack_fields_lengths:
  "stack_fields batch = (state, next_state, action, reward, done) \<Longrightarrow>
   length state = length batch \<and> length next_state = length batch \<and>
   length action = length batch \<and> length reward = length batch \<and> length done = length batch"
  by (auto simp: stack_fields_def)

text \<open>
  Claim C6, as amended. \<^verbatim>\<open>recall\<close> raises \<^verbatim>\<open>ValueError\<close>, the insufficient-data error of
  the source, when the buffer holds fewer than \<open>batch_size\<close> experiences. When
  \<open>0 < batch_size\<close> and the buffer holds at least \<open>batch_size\<close> experiences, it returns
  the experiences stored at \<open>batch_size\<close> pairwise distinct positions of the buffer,
  stacked field by field.
\<close>

theorem recall_sample:
  "(int (length (items (memory s))) < batch_size s \<longrightarrow> recall rnd s = Inl ValueError) \<and>
   (0 < batch_size s \<and> batch_size s \<le> int (length (items (memory s))) \<longrightarrow>
      recall rnd s =
        Inr (stack_fields (map (\<lambda>i. items (memory s) ! i)
               (sample_indices rnd (length (items (memory s))) (nat (batch_size s))))) \<and>
      distinct (sample_indices rnd (length (items (memory s))) (nat (batch_size s))) \<and>
      length (sample_indices rnd (length (items (memory s))) (nat (batch_size s))) =
        nat (batch_size s) \<and>
      set (sample_indices rnd (length (items (memory s))) (nat (batch_size s))) \<subseteq>
        {..<length (items (memory s))})"
proof -
  let ?n = "length (items (memory s))"
  let ?k = "nat (batch_size s)"
  have a: "recall rnd s = Inl ValueError" if "int ?n < batch_size s"
    using that by (simp add: recall_def random_sample_def)
  have b: "recall rnd s =
        Inr (stack_fields (map (\<lambda>i. items (memory s) ! i) (sample_indices rnd ?n ?k))) \<and>
      distinct (sample_indices rnd ?n ?k) \<and> length (sample_indices rnd ?n ?k) = ?k \<and>
      set (sample_indices rnd ?n ?k) \<subseteq> {..<?n}"
    if "0 < batch_size s" "batch_size s \<le> int ?n"
  proof -
    from that have kn: "?k \<le> ?n" and k0: "0 < ?k" by simp_all
    note p = sample_indices_props [OF kn, of rnd]
    from p(3) k0 have ne: "sample_indices rnd ?n ?k \<noteq> []" by auto
    have "recall rnd s =
        Inr (stack_fields (map (\<lambda>i. items (memory s) ! i) (sample_indices rnd ?n ?k)))"
      using that ne by (simp add: recall_def random_sample_def)
    with p show ?thesis by simp
  qed
  from a b show ?thesis by blast
qed

lemma recall_lengths:
  assumes "recall rnd s = Inr (state, next_state, action, reward, done)"
  shows "0 < batch_size s \<and> int (length next_state) = batch_size s \<and>
    length state = length next_state \<and> length action = length next_state \<and>
    length reward = length next_state \<and> length done = length next_state"
proof -
  let ?n = "length (items (memory s))"
  let ?k = "nat (batch_size s)"
  let ?b = "map (\<lambda>i. items (memory s) ! i) (sample_indices rnd ?n ?k)"
  from assms have r: "0 \<le> batch_size s" "batch_size s \<le> int ?n" "?b \<noteq> []"
    and sf: "stack_fields ?b = (state, next_state, action, reward, done)"
    by (auto simp: recall_def random_sample_def split: if_splits)
  from r have kn: "?k \<le> ?n" by simp
  have l: "length ?b = ?k"
    using sample_indices_props(3) [OF kn, of rnd] by simp
  with r(3) have "0 < ?k" by (cases "?k") auto
  with l stack_fields_lengths [OF sf] show ?thesis by auto
qed

subsection \<open>The double-DQN target\<close>

lemma torch_gt_irrefl: "\<not> torch_gt a a"
  by (cases a) (simp_all add: torch_gt_def less_scalar_def)

lemma torch_gt_trans: "torch_gt a b \<Longrightarrow> torch_gt b c \<Longrightarrow> torch_gt a c"
  by (cases a; cases b; cases c) (simp_all add: torch_gt_def less_scalar_def)

lemma torch_gt_neg_trans: "\<not> torch_gt a b \<Longrightarrow> \<not> torch_gt b c \<Longrightarrow> \<not> torch_gt a c"
  by (cases a; cases b; cases c) (simp_all add: torch_gt_def less_scalar_def)

lemma torch_gt_asym: "torch_gt a b \<Longrightarrow> \<not> torch_gt b a"
  using torch_gt_irrefl torch_gt_trans by blast

lemma torch_gt_Fin [simp]: "torch_gt (Fin a) (Fin b) = (b < a)"
  by (simp add: torch_gt_def less_scalar_def)

lemma argmax_first_less: "row \<noteq> [] \<Longrightarrow> argmax_first row < length row"
  by (induction row rule: argmax_first.induct) (simp_all add: Let_def)

lemma argmax_first_max: "j < length row \<Longrightarrow> \<not> torch_gt (row ! j) (row ! argmax_first row)"
proof (induction row arbitrary: j rule: argmax_first.induct)
  case 1
  then show ?case by simp
next
  case (2 x)
  then show ?case by (simp add: torch_gt_irrefl)
next
  case (3 x y ys)
  let ?k = "argmax_first (y # ys)"
  let ?m = "(y # ys) ! ?k"
  have ih: "\<not> torch_gt ((y # ys) ! j') ?m" if "j' < length (y # ys)" for j'
    using that by (rule "3.IH")
  show ?case
  proof (cases "torch_gt ?m x")
    case True
    then have k: "argmax_first (x # y # ys) = Suc ?k" by (simp add: Let_def)
    show ?thesis
    proof (cases j)
      case 0
      with True k show ?thesis by (simp add: torch_gt_asym)
    next
      case (Suc j')
      with "3.prems" k ih [of j'] show ?thesis by simp
    qed
  next
    case False
    then have k: "argmax_first (x # y # ys) = 0" by (simp add: Let_def)
    show ?thesis
    proof (cases j)
      case 0
      with k show ?thesis by (simp add: torch_gt_irrefl)
    next
      case (Suc j')
      with "3.prems" have "\<not> torch_gt ((y # ys) ! j') ?m" by (intro ih) simp
      then have "\<not> torch_gt ((y # ys) ! j') x" using False by (rule torch_gt_neg_trans)
      with Suc k show ?thesis by simp
    qed
  qed
qed

lemma argmax_first_first: "j < argmax_first row \<Longrightarrow> torch_gt (row ! argmax_first row) (row ! j)"
proof (induction row arbitrary: j rule: argmax_first.induct)
  case 1
  then show ?case by simp
next
  case (2 x)
  then show ?case by simp
next
  case (3 x y ys)
  let ?k = "argmax_first (y # ys)"
  from "3.prems" have gt: "torch_gt ((y # ys) ! ?k) x" and k: "argmax_first (x # y # ys) = Suc ?k"
    by (auto simp: Let_def split: if_splits)
  show ?case
  proof (cases j)
    case 0
    with gt k show ?thesis by simp
  next
    case (Suc j')
    with "3.prems" k have "j' < ?k" by simp
    then have "torch_gt ((y # ys) ! ?k) ((y # ys) ! j')" by (rule "3.IH")
    with Suc k show ?thesis by simp
  qed
qed

lemma scalar_add_zero: "r + (0 :: scalar) = r"
  by (cases r) (simp_all add: plus_scalar_def zero_scalar_def)

lemma scalar_add_NaN: "r + NaN = NaN"
  by (cases r) (simp_all add: plus_scalar_def)

lemma done_term:
  "(1 - done_float True) * g * q = (if finite_scalar g \<and> finite_scalar q then 0 else NaN)"
  by (cases g; cases q)
    (simp_all add: done_float_def one_scalar_def zero_scalar_def minus_scalar_def
      uminus_scalar_def plus_scalar_def times_scalar_def signed_inf_def finite_scalar_def)

lemma collect_map_Inr:
  "(\<And>x. x \<in> set xs \<Longrightarrow> f x = Inr (g x)) \<Longrightarrow> collect (map f xs) = Inr (map g xs)"
  by (induction xs) simp_all

lemma py_index_nat: "k < length row \<Longrightarrow> py_index row (int k) = Inr (row ! k)"
  by (simp add: py_index_def)

lemma td_target_value:
  assumes len: "int (length next_state) = batch_size s"
    and out: "\<And>x. x \<in> set next_state \<Longrightarrow>
      apply_net L (data (online (net s))) x = Inr (qo x) \<and>
      apply_net L (data (target (net s))) x = Inr (qt x) \<and>
      qo x \<noteq> [] \<and> length (qt x) = length (qo x)"
  shows "td_target L s reward next_state done =
    Inr (map (\<lambda>(rw, dn, nq). rw + (1 - done_float dn) * gamma s * nq)
          (zip reward (zip done (map (\<lambda>x. qt x ! argmax_first (qo x)) next_state))))"
proof -
  have fo: "forward L (net s) next_state ''online'' = Inr (Some (map qo next_state))"
    unfolding forward_def run_stack_def
    by (simp add: collect_map_Inr [of next_state _ qo] out)
  have ft: "forward L (net s) next_state ''target'' = Inr (Some (map qt next_state))"
    unfolding forward_def run_stack_def
    by (simp add: collect_map_Inr [of next_state _ qt] out)
  have am: "argmax_axis1 (map qo next_state) = Inr (map (\<lambda>x. int (argmax_first (qo x))) next_state)"
    unfolding argmax_axis1_def map_map
    by (rule collect_map_Inr) (simp add: argmax_def out)
  have z: "zip (map qt next_state) (map (\<lambda>x. int (argmax_first (qo x))) next_state)
      = map (\<lambda>x. (qt x, int (argmax_first (qo x)))) next_state"
    by (simp add: zip_map_map zip_same_conv_map)
  have ga: "gather (map qt next_state) (batch_size s) (map (\<lambda>x. int (argmax_first (qo x))) next_state)
      = Inr (map (\<lambda>x. qt x ! argmax_first (qo x)) next_state)"
    unfolding gather_def z map_map using len
    by (simp add: comp_def) (rule collect_map_Inr, simp add: py_index_nat argmax_first_less out)
  show ?thesis
    by (simp add: td_target_def fo ft am ga)
qed

text \<open>
  Claim C1, as amended. For every batch sampled by \<^verbatim>\<open>recall\<close> from an agent whose network
  returns, on each sampled next state, a non-empty row of the same length for both
  parameter sets, \<^verbatim>\<open>td_target\<close> returns one value per transition, and the value of
  transition \<open>i\<close> is \<open>reward + (1 - done) * gamma * qt[b]\<close>, where \<open>qt\<close> is the target
  network's row on \<open>next_state\<close> and \<open>b\<close> is the argmax of the online network's row \<open>qo\<close> on
  \<open>next_state\<close>: no entry of \<open>qo\<close> is larger than \<open>qo[b]\<close>, and every entry before \<open>b\<close> is
  smaller. When \<open>done\<close> is true the value is the reward provided \<open>gamma\<close> and \<open>qt[b]\<close> are
  finite; when one of them is infinite or NaN the value is NaN.
\<close>

theorem td_target_double_dqn:
  assumes smp: "recall rnd s = Inr (state, next_state, action, reward, done)"
    and out: "\<And>x. x \<in> set next_state \<Longrightarrow>
      \<exists>qo qt. apply_net L (data (online (net s))) x = Inr qo \<and>
        apply_net L (data (target (net s))) x = Inr qt \<and>
        qo \<noteq> [] \<and> length qt = length qo"
    and i: "i < length next_state"
  shows "\<exists>tgt qo qt b.
    td_target L s reward next_state done = Inr tgt \<and> length tgt = length next_state \<and>
    apply_net L (data (online (net s))) (next_state ! i) = Inr qo \<and>
    apply_net L (data (target (net s))) (next_state ! i) = Inr qt \<and>
    b < length qo \<and> b < length qt \<and>
    (\<forall>j < length qo. \<not> torch_gt (qo ! j) (qo ! b)) \<and>
    (\<forall>j < b. torch_gt (qo ! b) (qo ! j)) \<and>
    tgt ! i = reward ! i + (1 - done_float (done ! i)) * gamma s * (qt ! b) \<and>
    (done ! i \<longrightarrow>
       (if finite_scalar (gamma s) \<and> finite_scalar (qt ! b)
        then tgt ! i = reward ! i else tgt ! i = NaN))"
proof -
  note l = recall_lengths [OF smp]
  let ?qo = "\<lambda>x. projr (apply_net L (data (online (net s))) x)"
  let ?qt = "\<lambda>x. projr (apply_net L (data (target (net s))) x)"
  have out': "apply_net L (data (online (net s))) x = Inr (?qo x) \<and>
      apply_net L (data (target (net s))) x = Inr (?qt x) \<and>
      ?qo x \<noteq> [] \<and> length (?qt x) = length (?qo x)" if "x \<in> set next_state" for x
    using out [OF that] by auto
  let ?x = "next_state ! i"
  let ?b = "argmax_first (?qo ?x)"
  let ?nq = "map (\<lambda>x. ?qt x ! argmax_first (?qo x)) next_state"
  let ?tgt = "map (\<lambda>(rw, dn, nq). rw + (1 - done_float dn) * gamma s * nq)
          (zip reward (zip done ?nq))"
  have xin: "?x \<in> set next_state" using i by simp
  note ox = out' [OF xin]
  have eq: "td_target L s reward next_state done = Inr ?tgt"
    using l out' by (intro td_target_value) auto
  have len: "length ?tgt = length next_state" using l by simp
  have nth: "?tgt ! i = reward ! i + (1 - done_float (done ! i)) * gamma s * (?qt ?x ! ?b)"
    using i l by simp
  have b: "?b < length (?qo ?x)" "?b < length (?qt ?x)"
    using ox by (simp_all add: argmax_first_less)
  have mx: "\<forall>j < length (?qo ?x). \<not> torch_gt (?qo ?x ! j) (?qo ?x ! ?b)"
    by (simp add: argmax_first_max)
  have fst: "\<forall>j < ?b. torch_gt (?qo ?x ! ?b) (?qo ?x ! j)"
    by (simp add: argmax_first_first)
  have dn: "if finite_scalar (gamma s) \<and> finite_scalar (?qt ?x ! ?b)
        then ?tgt ! i = reward ! i else ?tgt ! i = NaN" if "done ! i"
    unfolding nth using that by (simp add: done_term scalar_add_zero scalar_add_NaN)
  have dn': "done ! i \<longrightarrow>
       (if finite_scalar (gamma s) \<and> finite_scalar (?qt ?x ! ?b)
        then ?tgt ! i = reward ! i else ?tgt ! i = NaN)"
    using dn by (rule impI)
  show ?thesis
    apply (rule exI [of _ ?tgt])
    apply (rule exI [of _ "?qo ?x"])
    apply (rule exI [of _ "?qt ?x"])
    apply (rule exI [of _ ?b])
    apply (intro conjI)
             apply (rule eq)
            apply (rule len)
           apply (rule ox [THEN conjunct1])
          apply (rule ox [THEN conjunct2, THEN conjunct1])
         apply (rule b(1))
        apply (rule b(2))
       apply (rule mx)
      apply (rule fst)
     apply (rule nth)
    apply (rule dn')
    done
qed

subsection \<open>The run of the small instance\<close>

lemmas run_defs =
  toy_ship_def Ship_init_def ShipNet_init_def toy_torch_def Adam_init_def deque_new_def
  cache_def deque_append_def act_def randint_def forward_def argmax_axis1_def argmax_def
  learn_def learn_step_def recall_def random_sample_def sample_indices_def stack_fields_def
  td_estimate_def td_target_def gather_def py_index_def update_Q_online_def loss_fn_def
  smooth_l1_def mean_def zero_grad_def backward_def step_def step_one_def sync_Q_target_def
  run_stack_def done_float_def torch_gt_def zero_scalar_def one_scalar_def plus_scalar_def
  uminus_scalar_def minus_scalar_def times_scalar_def abs_scalar_def less_scalar_def
  signed_inf_def Let_def numeral_2_eq_2

lemma demo_cached_eq:
  "demo_cached =
     \<lparr>state_dim = (4, 84, 84), action_dim = 2, save_dir = ''ckpt'', use_cuda = False,
      lr = 1 / 4,
      net = \<lparr>online = \<lparr>data = [1, 2], requires_grad = True, grad = None\<rparr>,
              target = \<lparr>data = [1, 2], requires_grad = False, grad = None\<rparr>\<rparr>,
      exploration_rate = 1, exploration_rate_decay = 1 / 2, exploration_rate_min = 1 / 10,
      curr_step = 0, save_every = 500000,
      memory = \<lparr>maxlen = 1000, items = [(1, 2, 0, 1, False), (2, 3, 1, 0, True)]\<rparr>,
      batch_size = 2, Q = None, gamma = Fin (9 / 10), loss = 0,
      optimizer = \<lparr>adam_lr = 1 / 4, adam_state = 0\<rparr>, burn_in = 0, learn_every = 1,
      sync_every = 2\<rparr>"
  by (simp add: demo_cached_def run_defs)

lemma demo_stepped_eq:
  "demo_stepped =
     \<lparr>state_dim = (4, 84, 84), action_dim = 2, save_dir = ''ckpt'', use_cuda = False,
      lr = 1 / 4,
      net = \<lparr>online = \<lparr>data = [1, 2], requires_grad = True, grad = None\<rparr>,
              target = \<lparr>data = [1, 2], requires_grad = False, grad = None\<rparr>\<rparr>,
      exploration_rate = 1 / 2, exploration_rate_decay = 1 / 2, exploration_rate_min = 1 / 10,
      curr_step = 1, save_every = 500000,
      memory = \<lparr>maxlen = 1000, items = [(1, 2, 0, 1, False), (2, 3, 1, 0, True)]\<rparr>,
      batch_size = 2, Q = None, gamma = Fin (9 / 10), loss = 0,
      optimizer = \<lparr>adam_lr = 1 / 4, adam_state = 0\<rparr>, burn_in = 0, learn_every = 1,
      sync_every = 2\<rparr>"
  by (simp add: demo_stepped_def demo_cached_eq act_def randint_def)

lemma demo_stepped_recall:
  "recall (\<lambda>i. 0) demo_stepped = Inr ([1, 2], [2, 3], [0, 1], [1, 0], [False, True])"
  by (simp add: demo_stepped_eq run_defs)

lemma demo_stepped_learn:
  "learn toy_torch (\<lambda>i. 0) demo_stepped =
     (Inr (Some (Fin (5 / 2)), Some (Fin (33 / 10))),
      \<lparr>state_dim = (4, 84, 84), action_dim = 2, save_dir = ''ckpt'', use_cuda = False,
       lr = 1 / 4,
       net = \<lparr>online = \<lparr>data = [3 / 4, 7 / 4], requires_grad = True, grad = Some [1, 1]\<rparr>,
               target = \<lparr>data = [1, 2], requires_grad = False, grad = None\<rparr>\<rparr>,
       exploration_rate = 1 / 2, exploration_rate_decay = 1 / 2,
       exploration_rate_min = 1 / 10, curr_step = 1, save_every = 500000,
       memory = \<lparr>maxlen = 1000, items = [(1, 2, 0, 1, False), (2, 3, 1, 0, True)]\<rparr>,
       batch_size = 2, Q = Some (Fin (5 / 2)), gamma = Fin (9 / 10),
       loss = Fin (33 / 10),
       optimizer = \<lparr>adam_lr = 1 / 4, adam_state = 1\<rparr>, burn_in = 0, learn_every = 1,
       sync_every = 2\<rparr>)"
  by (simp add: demo_stepped_eq run_defs)

lemma demo_stepped_again_eq:
  "demo_stepped_again =
     \<lparr>state_dim = (4, 84, 84), action_dim = 2, save_dir = ''ckpt'', use_cuda = False,
      lr = 1 / 4,
      net = \<lparr>online = \<lparr>data = [3 / 4, 7 / 4], requires_grad = True, grad = Some [1, 1]\<rparr>,
              target = \<lparr>data = [1, 2], requires_grad = False, grad = None\<rparr>\<rparr>,
      exploration_rate = 1 / 4, exploration_rate_decay = 1 / 2,
      exploration_rate_min = 1 / 10, curr_step = 2, save_every = 500000,
      memory = \<lparr>maxlen = 1000, items = [(1, 2, 0, 1, False), (2, 3, 1, 0, True)]\<rparr>,
      batch_size = 2, Q = Some (Fin (5 / 2)), gamma = Fin (9 / 10),
       loss = Fin (33 / 10),
      optimizer = \<lparr>adam_lr = 1 / 4, adam_state = 1\<rparr>, burn_in = 0, learn_every = 1,
      sync_every = 2\<rparr>"
  by (simp add: demo_stepped_again_def demo_learned_def demo_stepped_learn act_def randint_def)

lemma demo_diverged_eq:
  "demo_diverged =
     \<lparr>state_dim = (4, 84, 84), action_dim = 2, save_dir = ''ckpt'', use_cuda = False,
      lr = 1 / 4,
      net = \<lparr>online = \<lparr>data = [2, 1], requires_grad = True, grad = None\<rparr>,
              target = \<lparr>data = [1, 2], requires_grad = False, grad = None\<rparr>\<rparr>,
      exploration_rate = 1 / 2, exploration_rate_decay = 1 / 2, exploration_rate_min = 1 / 10,
      curr_step = 1, save_every = 500000,
      memory = \<lparr>maxlen = 1000, items = [(1, 2, 0, 1, False), (2, 3, 1, 0, True)]\<rparr>,
      batch_size = 2, Q = None, gamma = Fin (9 / 10), loss = 0,
      optimizer = \<lparr>adam_lr = 1 / 4, adam_state = 0\<rparr>, burn_in = 0, learn_every = 1,
      sync_every = 2\<rparr>"
  by (simp add: demo_diverged_def demo_stepped_eq load_def checkpoint_of_def state_dict_def
      load_state_dict_def Adam_init_def toy_torch_def)

lemma demo_diverged_recall:
  "recall (\<lambda>i. 0) demo_diverged = Inr ([1, 2], [2, 3], [0, 1], [1, 0], [False, True])"
  by (simp add: demo_diverged_eq run_defs)

text \<open>
  The batch of the run, in the agent whose two networks disagree. On the next state 2
  the online network prefers action 0 (values 4 and 2) and the target network values
  that action at 2, so the first target is \<open>1 + 0.9 * 2\<close>; evaluating with the online
  network, or selecting with the target network, would give \<open>1 + 0.9 * 4\<close>. The second
  transition is terminal and its target is its reward 0.
\<close>

theorem td_target_double_dqn_witness:
  "recall (\<lambda>i. 0) demo_diverged = Inr ([1, 2], [2, 3], [0, 1], [1, 0], [False, True]) \<and>
   td_target toy_torch demo_diverged [1, 0] [2, 3] [False, True] = Inr [Fin (14 / 5), 0] \<and>
   projr (td_target toy_torch demo_diverged [1, 0] [2, 3] [False, True]) ! 1 = [1, 0] ! 1"
proof -
  have out: "\<exists>qo qt. apply_net toy_torch (data (online (net demo_diverged))) x = Inr qo \<and>
      apply_net toy_torch (data (target (net demo_diverged))) x = Inr qt \<and>
      qo \<noteq> [] \<and> length qt = length qo" for x
    by (simp add: demo_diverged_eq toy_torch_def)
  have i: "1 < length [2, 3 :: real]" by simp
  from td_target_double_dqn [OF demo_diverged_recall out i]
  obtain tgt qo qt b
    where t: "td_target toy_torch demo_diverged [1, 0] [2, 3] [False, True] = Inr tgt"
      and qt: "apply_net toy_torch (data (target (net demo_diverged))) ([2, 3] ! 1) = Inr qt"
      and b: "b < length qt"
      and d: "[False, True] ! 1 \<longrightarrow>
         (if finite_scalar (gamma demo_diverged) \<and> finite_scalar (qt ! b)
          then tgt ! 1 = [1, 0] ! 1 else tgt ! 1 = NaN)"
    by blast
  from qt have q: "qt = [Fin 3, Fin 6]"
    by (simp add: demo_diverged_eq toy_torch_def)
  with b have "b = 0 \<or> b = 1" by auto
  with q have "finite_scalar (qt ! b)" by (auto simp: finite_scalar_def)
  moreover have "finite_scalar (gamma demo_diverged)"
    by (simp add: demo_diverged_eq finite_scalar_def)
  ultimately have "tgt ! 1 = [1, 0] ! 1" using d by simp
  with t have p: "projr (td_target toy_torch demo_diverged [1, 0] [2, 3] [False, True]) ! 1
      = [1, 0] ! 1"
    by simp
  have e: "td_target toy_torch demo_diverged [1, 0] [2, 3] [False, True] = Inr [Fin (14 / 5), 0]"
    by (simp add: demo_diverged_eq run_defs)
  from demo_diverged_recall e p show ?thesis by blast
qed

text \<open>
  The claim as stated (for a terminal transition the target is the reward, whatever
  \<open>gamma\<close> and the network outputs) fails for an agent constructed with an infinite
  \<open>gamma\<close> (the first conjunct: the agent is the one of the run, constructed with that
  \<open>gamma\<close>): the target of the terminal transition with reward 0 is \<open>0 + (0 * inf) * 6\<close>,
  which is NaN.
\<close>

theorem td_target_terminal_nan_counterexample:
  "demo_stepped\<lparr>gamma := PInf\<rparr> =
     snd (act toy_torch 0 0 1
            (cache_all
               (projr (Ship_init toy_torch (4, 84, 84) 2 ''ckpt'' 1 (1 / 2) (1 / 10) 500000 2
                  PInf (1 / 4) 0 1 2))
               [(1, 2, 0, 1, False), (2, 3, 1, 0, True)])) \<and>
   recall (\<lambda>i. 0) (demo_stepped\<lparr>gamma := PInf\<rparr>)
     = Inr ([1, 2], [2, 3], [0, 1], [1, 0], [False, True]) \<and>
   td_target toy_torch (demo_stepped\<lparr>gamma := PInf\<rparr>) [1, 0] [2, 3] [False, True]
     = Inr [PInf, NaN]"
  by (simp add: demo_stepped_eq run_defs)

text \<open>
  An empty buffer is refused; from the two cached experiences both are drawn.
\<close>

theorem recall_sample_witness:
  "recall (\<lambda>i. 0) (toy_ship 2 1 (1 / 2) (1 / 10) 2 (1 / 4) 0 1 2) = Inl ValueError \<and>
   recall (\<lambda>i. 0) demo_stepped = Inr ([1, 2], [2, 3], [0, 1], [1, 0], [False, True]) \<and>
   sample_indices (\<lambda>i. 0) 2 2 = [0, 1]"
proof -
  have a: "recall (\<lambda>i. 0) (toy_ship 2 1 (1 / 2) (1 / 10) 2 (1 / 4) 0 1 2) = Inl ValueError"
    using recall_sample [of "toy_ship 2 1 (1 / 2) (1 / 10) 2 (1 / 4) 0 1 2" "\<lambda>i. 0"]
    by (simp add: toy_ship_fields deque_new_def)
  have b: "sample_indices (\<lambda>i. 0) 2 2 = [0, 1]"
    by (simp add: sample_indices_def numeral_2_eq_2)
  have c: "recall (\<lambda>i. 0) demo_stepped = Inr ([1, 2], [2, 3], [0, 1], [1, 0], [False, True])"
    using recall_sample [of demo_stepped "\<lambda>i. 0"]
    by (simp add: demo_stepped_eq sample_indices_def stack_fields_def numeral_2_eq_2)
  from a b c show ?thesis by simp
qed

text \<open>
  The claim as stated fails for \<open>batch_size = 0\<close>: the buffer holds at least that many
  experiences, and \<^verbatim>\<open>recall\<close> raises (unpacking the empty batch) instead of returning
  an empty batch.
\<close>

theorem recall_zero_batch_counterexample:
  "batch_size (demo_stepped\<lparr>batch_size := 0\<rparr>)
     \<le> int (length (items (memory (demo_stepped\<lparr>batch_size := 0\<rparr>)))) \<and>
   recall (\<lambda>i. 0) (demo_stepped\<lparr>batch_size := 0\<rparr>) = Inl ValueError"
  by (simp add: demo_stepped_eq recall_def random_sample_def sample_indices_def)

text \<open>
  A fresh agent in burn-in at step 0 is synchronised and returns \<^verbatim>\<open>(None, None)\<close>; at
  step 1 with \<open>learn_every = 3\<close> the call returns \<^verbatim>\<open>(None, None)\<close> and changes nothing;
  with \<open>sync_every = 0\<close> the call raises.
\<close>

theorem learn_gating_witness:
  "learn toy_torch (\<lambda>i. 0) (toy_ship 2 1 (1 / 2) (1 / 10) 2 (1 / 4) 10 3 5) =
     (Inr (None, None), sync_Q_target (toy_ship 2 1 (1 / 2) (1 / 10) 2 (1 / 4) 10 3 5)) \<and>
   learn toy_torch (\<lambda>i. 0) (demo_stepped\<lparr>learn_every := 3\<rparr>) =
     (Inr (None, None), demo_stepped\<lparr>learn_every := 3\<rparr>) \<and>
   learn toy_torch (\<lambda>i. 0) (toy_ship 2 1 (1 / 2) (1 / 10) 2 (1 / 4) 10 3 0) =
     (Inl ZeroDivisionError, toy_ship 2 1 (1 / 2) (1 / 10) 2 (1 / 4) 10 3 0)"
  using learn_gating [of "toy_ship 2 1 (1 / 2) (1 / 10) 2 (1 / 4) 10 3 5" toy_torch "\<lambda>i. 0"]
    learn_gating [of "demo_stepped\<lparr>learn_every := 3\<rparr>" toy_torch "\<lambda>i. 0"]
    learn_gating [of "toy_ship 2 1 (1 / 2) (1 / 10) 2 (1 / 4) 10 3 0" toy_torch "\<lambda>i. 0"]
  by (simp add: toy_ship_fields demo_stepped_eq)

text \<open>
  The claim as stated (for every agent state) fails for an agent constructed with
  \<open>sync_every = 0\<close>: in burn-in, \<^verbatim>\<open>learn\<close> raises instead of returning \<^verbatim>\<open>(None, None)\<close>.
\<close>

theorem learn_zero_sync_every_counterexample:
  "curr_step (toy_ship 2 1 (1 / 2) (1 / 10) 2 (1 / 4) 10 3 0)
     < burn_in (toy_ship 2 1 (1 / 2) (1 / 10) 2 (1 / 4) 10 3 0) \<and>
   fst (learn toy_torch (\<lambda>i. 0) (toy_ship 2 1 (1 / 2) (1 / 10) 2 (1 / 4) 10 3 0))
     = Inl ZeroDivisionError"
  by (simp add: learn_def toy_ship_fields)

text \<open>
  At step 2 of the run the online weights have moved away from the target; the sync
  of \<^verbatim>\<open>learn\<close> copies them.
\<close>

theorem hard_sync_witness:
  "curr_step demo_stepped_again mod sync_every demo_stepped_again = 0 \<and>
   data (online (net demo_stepped_again)) = [3 / 4, 7 / 4] \<and>
   data (target (net demo_stepped_again)) = [1, 2] \<and>
   data (target (net (sync_Q_target demo_stepped_again))) = [3 / 4, 7 / 4] \<and>
   data (target (net (snd (learn toy_torch (\<lambda>i. 0) demo_stepped_again)))) = [3 / 4, 7 / 4]"
  using hard_sync [of demo_stepped_again toy_torch "\<lambda>i. 0"]
  by (simp add: demo_stepped_again_eq sync_Q_target_def)

text \<open>
  The learning step of the run: the online weights change, the target weights do not.
\<close>

theorem target_frame_witness:
  "data (online (net demo_stepped)) = [1, 2] \<and>
   data (target (net demo_stepped)) = [1, 2] \<and>
   fst (learn toy_torch (\<lambda>i. 0) demo_stepped) = Inr (Some (Fin (5 / 2)), Some (Fin (33 / 10))) \<and>
   data (online (net (snd (learn toy_torch (\<lambda>i. 0) demo_stepped)))) = [3 / 4, 7 / 4] \<and>
   data (target (net (snd (learn toy_torch (\<lambda>i. 0) demo_stepped)))) = [1, 2]"
proof -
  have "data (target (net (snd (learn toy_torch (\<lambda>i. 0) demo_stepped)))) = [1, 2]"
    using target_frame [of toy_torch demo_stepped "[]" "[]" "[]" "[]" "\<lambda>i. 0"]
    by (simp add: demo_stepped_eq)
  then show ?thesis
    by (simp add: demo_stepped_learn) (simp add: demo_stepped_eq)
qed

subsection \<open>Checkpoints\<close>

lemma save_load_fields:
  assumes "save a fs = (p, fs')" and "load L fs' p b = (r, b')"
  shows "r = Inr () \<and> state_dict (net b') = state_dict (net a) \<and>
    exploration_rate b' = exploration_rate a \<and>
    exploration_rate_decay b' = exploration_rate_decay a \<and>
    exploration_rate_min b' = exploration_rate_min a \<and>
    save_every b' = save_every a \<and> batch_size b' = batch_size a \<and> gamma b' = gamma a \<and>
    burn_in b' = burn_in a \<and> learn_every b' = learn_every a \<and>
    sync_every b' = sync_every a \<and> curr_step b' = curr_step a \<and> memory b' = memory a \<and>
    optimizer b' = Adam_init L (lr a) \<and> lr b' = lr b"
  using assms
  by (auto simp: save_def load_def checkpoint_of_def state_dict_def load_state_dict_def)

text \<open>
  Claim C7 at a failing input. An agent constructed with learning rate 1/1000 saves; an
  agent constructed with learning rate 1/4 loads the checkpoint. The load succeeds and
  the new optimizer has rate 1/1000, but the attribute \<open>lr\<close> of the loading agent is still
  1/4, and that is the rate its next checkpoint would record. Lemma \<open>save_load_fields\<close>
  lists what is restored.
\<close>

theorem load_keeps_stale_lr:
  "fst (load toy_torch (snd (save (toy_ship 2 1 (1 / 2) (1 / 10) 2 (1 / 1000) 0 1 2) Map.empty))
          (fst (save (toy_ship 2 1 (1 / 2) (1 / 10) 2 (1 / 1000) 0 1 2) Map.empty))
          (toy_ship 2 1 (1 / 2) (1 / 10) 2 (1 / 4) 0 1 2)) = Inr () \<and>
   lr (toy_ship 2 1 (1 / 2) (1 / 10) 2 (1 / 1000) 0 1 2) = 1 / 1000 \<and>
   lr (snd (load toy_torch (snd (save (toy_ship 2 1 (1 / 2) (1 / 10) 2 (1 / 1000) 0 1 2) Map.empty))
          (fst (save (toy_ship 2 1 (1 / 2) (1 / 10) 2 (1 / 1000) 0 1 2) Map.empty))
          (toy_ship 2 1 (1 / 2) (1 / 10) 2 (1 / 4) 0 1 2))) = 1 / 4 \<and>
   adam_lr (optimizer (snd (load toy_torch (snd (save (toy_ship 2 1 (1 / 2) (1 / 10) 2 (1 / 1000) 0 1 2) Map.empty))
          (fst (save (toy_ship 2 1 (1 / 2) (1 / 10) 2 (1 / 1000) 0 1 2) Map.empty))
          (toy_ship 2 1 (1 / 2) (1 / 10) 2 (1 / 4) 0 1 2)))) = 1 / 1000 \<and>
   ck_lr (checkpoint_of (snd (load toy_torch (snd (save (toy_ship 2 1 (1 / 2) (1 / 10) 2 (1 / 1000) 0 1 2) Map.empty))
          (fst (save (toy_ship 2 1 (1 / 2) (1 / 10) 2 (1 / 1000) 0 1 2) Map.empty))
          (toy_ship 2 1 (1 / 2) (1 / 10) 2 (1 / 4) 0 1 2)))) = 1 / 4"
  by (simp add: save_def load_def checkpoint_of_def toy_ship_fields Adam_init_def)

end
